theory Spec2Isabelle
  imports Complex_Main
begin

section \<open>Python values and errors\<close>

text \<open>
  The controller of \<^verbatim>\<open>mcs_controller_ai2thor.py\<close> handles loosely typed data: keyword
  arguments of \<^verbatim>\<open>step\<close>, the JSON scene configuration and the metadata of the
  simulator's scene event. They are values of one datatype. Numbers are exact reals: the
  rounding of Python's floats is not part of the model. A dictionary is an association
  list read with \<^const>\<open>map_of\<close>; its keys are strings.
\<close>

datatype pyval =
    PNone
  | PNum real
  | PStr string
  | PList "pyval list"
  | PDict "(string \<times> pyval) list"

datatype py_error = KeyError | TypeError | IndexError | AttributeError

type_synonym kwargs = "(string \<times> pyval) list"

text \<open>Sequencing of computations that may raise: the first error wins.\<close>

definition raise_bind :: "py_error + 'a \<Rightarrow> ('a \<Rightarrow> py_error + 'b) \<Rightarrow> py_error + 'b" where
  "raise_bind m f = (case m of Inl e \<Rightarrow> Inl e | Inr x \<Rightarrow> f x)"

text \<open>\<^verbatim>\<open>kwargs.get(key, default)\<close>\<close>

definition kwargs_get :: "kwargs \<Rightarrow> string \<Rightarrow> pyval \<Rightarrow> pyval" where
  "kwargs_get kw key default_value =
     (case map_of kw key of None \<Rightarrow> default_value | Some v \<Rightarrow> v)"

text \<open>\<^verbatim>\<open>d[key]\<close> with a string key: only a dictionary can be read that way.\<close>

fun py_getitem :: "pyval \<Rightarrow> string \<Rightarrow> py_error + pyval" where
  "py_getitem (PDict d) key = (case map_of d key of None \<Rightarrow> Inl KeyError | Some v \<Rightarrow> Inr v)"
| "py_getitem v key = Inl TypeError"

text \<open>A contiguous substring test, for \<^verbatim>\<open>key in some_string\<close>.\<close>

fun starts_with :: "string \<Rightarrow> string \<Rightarrow> bool" where
  "starts_with [] s = True"
| "starts_with (c # cs) [] = False"
| "starts_with (c # cs) (d # ds) = (c = d \<and> starts_with cs ds)"

fun substring :: "string \<Rightarrow> string \<Rightarrow> bool" where
  "substring k [] = (k = [])"
| "substring k (d # ds) = (starts_with k (d # ds) \<or> substring k ds)"

text \<open>\<^verbatim>\<open>key in v\<close> for a string key.\<close>

fun py_in :: "string \<Rightarrow> pyval \<Rightarrow> py_error + bool" where
  "py_in key (PDict d) = Inr (map_of d key \<noteq> None)"
| "py_in key (PList xs) = Inr (PStr key \<in> set xs)"
| "py_in key (PStr s) = Inr (substring key s)"
| "py_in key v = Inl TypeError"

text \<open>Truth value of a Python object, as an \<^verbatim>\<open>if\<close> tests it.\<close>

fun truthy :: "pyval \<Rightarrow> bool" where
  "truthy PNone = False"
| "truthy (PNum x) = (x \<noteq> 0)"
| "truthy (PStr s) = (s \<noteq> [])"
| "truthy (PList xs) = (xs \<noteq> [])"
| "truthy (PDict d) = (d \<noteq> [])"

section \<open>Helpers of \<^verbatim>\<open>MCS_Util\<close>\<close>

text \<open>
  Modelled from the spec: \<^verbatim>\<open>MCS_Util.is_number\<close> (module \<^verbatim>\<open>mcs_util\<close> is imported by the
  controller and is not among the sources). The specification says that each
  parameter is type-checked and "if not numeric, replaced with its documented default".
\<close>

fun is_number :: "pyval \<Rightarrow> bool" where
  "is_number (PNum x) = True"
| "is_number v = False"

text \<open>The number held by a value that passed \<^const>\<open>is_number\<close>.\<close>

fun number_of :: "pyval \<Rightarrow> real" where
  "number_of (PNum x) = x"
| "number_of v = 0"

text \<open>
  Modelled from the spec: \<^verbatim>\<open>MCS_Util.is_in_range\<close> (same missing module). The
  specification gives closed ranges and says "out-of-range values are replaced by default
  (clamp-to-default, not clamp-to-boundary)".
\<close>

definition is_in_range :: "real \<Rightarrow> real \<Rightarrow> real \<Rightarrow> real \<Rightarrow> real" where
  "is_in_range v min_value max_value default_value =
     (if v > max_value \<or> v < min_value then default_value else v)"

section \<open>Constants of \<^verbatim>\<open>MCS_Controller_AI2THOR\<close>\<close>

definition GRID_SIZE :: real where [simp]: "GRID_SIZE = 0.1"
definition MAX_MOVE_DISTANCE :: real where [simp]: "MAX_MOVE_DISTANCE = 0.5"
definition MAX_BABY_FORCE :: real where [simp]: "MAX_BABY_FORCE = 25.0"
definition MAX_REACH_DISTANCE :: real where [simp]: "MAX_REACH_DISTANCE = 1.0"

definition DEFAULT_HORIZON :: real where [simp]: "DEFAULT_HORIZON = 0"
definition DEFAULT_ROTATION :: real where [simp]: "DEFAULT_ROTATION = 0"
definition DEFAULT_FORCE :: real where [simp]: "DEFAULT_FORCE = 0.5"
definition DEFAULT_AMOUNT :: real where [simp]: "DEFAULT_AMOUNT = 0.5"
definition DEFAULT_DIRECTION :: real where [simp]: "DEFAULT_DIRECTION = 0"
definition DEFAULT_OBJECT_MOVE_AMOUNT :: real where [simp]: "DEFAULT_OBJECT_MOVE_AMOUNT = 1"

definition MAX_ROTATION :: real where [simp]: "MAX_ROTATION = 360"
definition MIN_ROTATION :: real where [simp]: "MIN_ROTATION = -360"
definition MAX_HORIZON :: real where [simp]: "MAX_HORIZON = 180"
definition MIN_HORIZON :: real where [simp]: "MIN_HORIZON = -180"

definition MAX_FORCE :: real where [simp]: "MAX_FORCE = 1"
definition MIN_FORCE :: real where [simp]: "MIN_FORCE = 0"
definition MAX_AMOUNT :: real where [simp]: "MAX_AMOUNT = 1"
definition MIN_AMOUNT :: real where [simp]: "MIN_AMOUNT = 0"

definition ROTATION_KEY :: string where [simp]: "ROTATION_KEY = ''rotation''"
definition HORIZON_KEY :: string where [simp]: "HORIZON_KEY = ''horizon''"
definition FORCE_KEY :: string where [simp]: "FORCE_KEY = ''force''"
definition AMOUNT_KEY :: string where [simp]: "AMOUNT_KEY = ''amount''"
definition OBJECT_DIRECTION_X_KEY :: string where
  [simp]: "OBJECT_DIRECTION_X_KEY = ''objectDirectionX''"
definition OBJECT_DIRECTION_Y_KEY :: string where
  [simp]: "OBJECT_DIRECTION_Y_KEY = ''objectDirectionY''"
definition OBJECT_DIRECTION_Z_KEY :: string where
  [simp]: "OBJECT_DIRECTION_Z_KEY = ''objectDirectionZ''"
definition RECEPTACLE_DIRECTION_X :: string where
  [simp]: "RECEPTACLE_DIRECTION_X = ''receptacleObjectDirectionX''"
definition RECEPTACLE_DIRECTION_Y :: string where
  [simp]: "RECEPTACLE_DIRECTION_Y = ''receptacleObjectDirectionY''"
definition RECEPTACLE_DIRECTION_Z :: string where
  [simp]: "RECEPTACLE_DIRECTION_Z = ''receptacleObjectDirectionZ''"

definition FORCE_ACTIONS :: "string list" where
  [simp]: "FORCE_ACTIONS = [''ThrowObject'', ''PushObject'', ''PullObject'']"
definition OBJECT_MOVE_ACTIONS :: "string list" where
  [simp]: "OBJECT_MOVE_ACTIONS = [''CloseObject'', ''OpenObject'']"
definition MOVE_ACTIONS :: "string list" where
  [simp]: "MOVE_ACTIONS = [''MoveAhead'', ''MoveLeft'', ''MoveRight'', ''MoveBack'']"

section \<open>Parameter validation: \<^verbatim>\<open>validate_and_convert_params\<close>\<close>

text \<open>
  The function reads each parameter from the keyword arguments (lines 141 to 151),
  replaces a value that is not a number by a default (lines 154 to 188) and replaces a
  horizon, amount or force outside its range by a default (lines 191 to 194). The
  parameters do not depend on each other, so the value each local variable holds after
  line 194 is given by a function of its own.
\<close>

definition normalized_rotation :: "kwargs \<Rightarrow> real" where
  "normalized_rotation kw =
     (let rotation = kwargs_get kw ROTATION_KEY (PNum DEFAULT_ROTATION)
      in if \<not> is_number rotation then DEFAULT_ROTATION else number_of rotation)"

definition normalized_horizon :: "kwargs \<Rightarrow> real" where
  "normalized_horizon kw =
     (let horizon = kwargs_get kw HORIZON_KEY (PNum DEFAULT_HORIZON);
          horizon = (if \<not> is_number horizon then DEFAULT_HORIZON else number_of horizon)
      in is_in_range horizon MIN_HORIZON MAX_HORIZON DEFAULT_HORIZON)"

definition normalized_amount :: "string \<Rightarrow> kwargs \<Rightarrow> real" where
  "normalized_amount action kw =
     (let amount = kwargs_get kw AMOUNT_KEY (PNum DEFAULT_AMOUNT);
          amount = (if \<not> is_number amount
                    then (if action \<in> set OBJECT_MOVE_ACTIONS
                          then DEFAULT_OBJECT_MOVE_AMOUNT
                          else DEFAULT_AMOUNT)
                    else number_of amount)
      in is_in_range amount MIN_AMOUNT MAX_AMOUNT DEFAULT_AMOUNT)"

definition normalized_force :: "kwargs \<Rightarrow> real" where
  "normalized_force kw =
     (let force = kwargs_get kw FORCE_KEY (PNum DEFAULT_FORCE);
          force = (if \<not> is_number force then DEFAULT_FORCE else number_of force)
      in is_in_range force MIN_FORCE MAX_FORCE DEFAULT_FORCE)"

definition normalized_direction :: "kwargs \<Rightarrow> string \<Rightarrow> real" where
  "normalized_direction kw key =
     (let direction = kwargs_get kw key (PNum DEFAULT_DIRECTION)
      in if \<not> is_number direction then DEFAULT_DIRECTION else number_of direction)"

text \<open>
  The payload returned at lines 227 to 235. The three vectors are dictionaries from an
  axis name to a number.
\<close>

record step_params =
  objectId :: pyval
  receptacleObjectId :: pyval
  rotation :: "(string \<times> real) list"
  horizon :: real
  moveMagnitude :: real
  objectDirection :: "(string \<times> real) list"
  receptacleObjectDirection :: "(string \<times> real) list"

text \<open>
  \<open>enable_noise\<close> is the controller's flag; \<open>noise\<close> holds the three samples that the
  three calls of \<^verbatim>\<open>generate_noise\<close> return, in the order of the calls (the sampler is
  not defined in the sources).
\<close>

definition validate_and_convert_params ::
  "bool \<Rightarrow> real \<times> real \<times> real \<Rightarrow> string \<Rightarrow> kwargs \<Rightarrow> step_params" where
  "validate_and_convert_params enable_noise noise action kw =
     (let moveMagnitude = MAX_MOVE_DISTANCE;
          rotation = normalized_rotation kw;
          horizon = normalized_horizon kw;
          amount = normalized_amount action kw;
          force = normalized_force kw;
          objectDirectionX = normalized_direction kw OBJECT_DIRECTION_X_KEY;
          objectDirectionY = normalized_direction kw OBJECT_DIRECTION_Y_KEY;
          objectDirectionZ = normalized_direction kw OBJECT_DIRECTION_Z_KEY;
          receptacleObjectDirectionX = normalized_direction kw RECEPTACLE_DIRECTION_X;
          receptacleObjectDirectionY = normalized_direction kw RECEPTACLE_DIRECTION_Y;
          receptacleObjectDirectionZ = normalized_direction kw RECEPTACLE_DIRECTION_Z;
          moveMagnitude =
            (if action \<in> set FORCE_ACTIONS then force * MAX_BABY_FORCE else moveMagnitude);
          moveMagnitude =
            (if action \<in> set OBJECT_MOVE_ACTIONS then amount else moveMagnitude);
          moveMagnitude =
            (if action \<in> set MOVE_ACTIONS then amount * MAX_MOVE_DISTANCE else moveMagnitude);
          rotation = (if enable_noise then rotation * (1 + fst noise) else rotation);
          horizon = (if enable_noise then horizon * (1 + fst (snd noise)) else horizon);
          moveMagnitude =
            (if enable_noise then moveMagnitude * (1 + snd (snd noise)) else moveMagnitude);
          rotation_vector = [(''y'', rotation)];
          object_vector =
            [(''x'', objectDirectionX), (''y'', objectDirectionY), (''z'', objectDirectionZ)];
          receptacle_vector =
            [(''x'', receptacleObjectDirectionX), (''y'', receptacleObjectDirectionY),
             (''z'', receptacleObjectDirectionZ)]
      in \<lparr> objectId = kwargs_get kw ''objectId'' PNone,
           receptacleObjectId = kwargs_get kw ''receptacleObjectId'' PNone,
           rotation = rotation_vector,
           horizon = horizon,
           moveMagnitude = moveMagnitude,
           objectDirection = object_vector,
           receptacleObjectDirection = receptacle_vector \<rparr>)"

section \<open>Scene goal: \<^verbatim>\<open>retrieve_goal\<close>\<close>

text \<open>
  Modelled from the spec: the class \<^verbatim>\<open>MCS_Goal\<close> (module \<^verbatim>\<open>mcs_goal\<close> is not among
  the sources). The specification lists its fields; the record holds the six arguments
  that \<^verbatim>\<open>retrieve_goal\<close> passes to the constructor, as they are.
\<close>

record MCS_Goal =
  action_list :: pyval
  info_list :: pyval
  last_step :: pyval
  task_list :: pyval
  type_list :: pyval
  metadata :: pyval

text \<open>
  The conditional expression \<^verbatim>\<open>cfg[read_key] if tested_key in cfg else default\<close>.
  It raises what the membership test or the read raises.
\<close>

definition item_if_present :: "pyval \<Rightarrow> string \<Rightarrow> string \<Rightarrow> pyval \<Rightarrow> py_error + pyval" where
  "item_if_present cfg read_key tested_key default_value =
     raise_bind (py_in tested_key cfg)
       (\<lambda>present. if present then py_getitem cfg read_key else Inr default_value)"

text \<open>Python evaluates the arguments of the constructor in the order written.\<close>

definition retrieve_goal :: "pyval \<Rightarrow> py_error + MCS_Goal" where
  "retrieve_goal current_scene =
     raise_bind (item_if_present current_scene ''goal'' ''goal'' (PDict [])) (\<lambda>goal_config.
     raise_bind (item_if_present goal_config ''action_list'' ''action_list'' PNone) (\<lambda>a.
     raise_bind (item_if_present goal_config ''info_list'' ''type_list'' (PList [])) (\<lambda>i.
     raise_bind (item_if_present goal_config ''last_step'' ''last_step'' PNone) (\<lambda>l.
     raise_bind (item_if_present goal_config ''task_list'' ''type_list'' (PList [])) (\<lambda>t.
     raise_bind (item_if_present goal_config ''type_list'' ''type_list'' (PList [])) (\<lambda>ty.
     raise_bind (item_if_present goal_config ''metadata'' ''metadata'' (PDict [])) (\<lambda>m.
       Inr \<lparr> action_list = a, info_list = i, last_step = l, task_list = t,
             type_list = ty, metadata = m \<rparr>)))))))"

section \<open>Action list: \<^verbatim>\<open>retrieve_action_list\<close>\<close>

text \<open>\<^verbatim>\<open>len(v)\<close>\<close>

fun py_len :: "pyval \<Rightarrow> py_error + nat" where
  "py_len (PList xs) = Inr (length xs)"
| "py_len (PStr s) = Inr (length s)"
| "py_len (PDict d) = Inr (length d)"
| "py_len v = Inl TypeError"

text \<open>
  \<^verbatim>\<open>v[n]\<close> for an index that is not negative (the step counter starts at 0 and is
  only ever incremented). A dictionary of this model has string keys only.
\<close>

fun py_index :: "pyval \<Rightarrow> nat \<Rightarrow> py_error + pyval" where
  "py_index (PList xs) n = (if n < length xs then Inr (xs ! n) else Inl IndexError)"
| "py_index (PStr s) n = (if n < length s then Inr (PStr [s ! n]) else Inl IndexError)"
| "py_index (PDict d) n = Inl KeyError"
| "py_index v n = Inl TypeError"

text \<open>
  The first argument is the class attribute \<^verbatim>\<open>ACTION_LIST\<close>, the values of the
  enumeration \<^verbatim>\<open>MCS_Action\<close>, which is not among the sources.
\<close>

definition retrieve_action_list :: "string list \<Rightarrow> MCS_Goal option \<Rightarrow> nat \<Rightarrow> py_error + pyval" where
  "retrieve_action_list vocabulary goal step_number =
     (case goal of
        None \<Rightarrow> Inr (PList (map PStr vocabulary))
      | Some g \<Rightarrow>
          if action_list g \<noteq> PNone then
            raise_bind (py_len (action_list g)) (\<lambda>n.
              if n > step_number then
                raise_bind (py_index (action_list g) step_number) (\<lambda>entry.
                raise_bind (py_len entry) (\<lambda>m.
                  if m > 0 then py_index (action_list g) step_number
                  else Inr (PList (map PStr vocabulary))))
              else Inr (PList (map PStr vocabulary)))
          else Inr (PList (map PStr vocabulary)))"

section \<open>The world outside the controller\<close>

text \<open>
  What the controller prints. The three warnings carry the text of the source; the lines
  printed in terminal debug mode carry the data they show.
  \<^item> \<open>Past_last_step_warning\<close>: "MCS Warning: You have passed the last step of this scene.
    Skipping your action.Please call controller.end_scene() now."
  \<^item> \<open>Invalid_action_warning a\<close>: "MCS Warning: The given action 'a' is not valid.
    Exchanging it with the 'Pass' action."
  \<^item> \<open>Unsupported_status s\<close>: "Return status s is not currently supported."
\<close>

datatype message =
    Past_last_step_warning
  | Invalid_action_warning string
  | Unsupported_status string
  | Debug_step nat
  | Debug_action string
  | Debug_return_status string
  | Debug_objects pyval

text \<open>
  The step data that \<^verbatim>\<open>wrap_step\<close> builds for the simulator. The keyword arguments merged
  into it are the scene configuration (for \<^verbatim>\<open>Initialize\<close>) or the validated parameters.
\<close>

record step_data =
  continuous :: bool
  gridSize :: real
  logs :: bool
  renderDepthImage :: bool
  renderObjectImage :: bool
  visibilityDistance :: real
  action :: string
  sceneConfig :: "pyval option"
  params :: "step_params option"

text \<open>
  The simulator's answer. Frames and images pass through an imaging library and are not
  modelled; \<open>event_metadata\<close> is the attribute \<^verbatim>\<open>metadata\<close> of the event.
\<close>

record scene_event =
  event_metadata :: pyval
  object_id_to_color :: pyval

text \<open>
  What the controller takes from outside. The first five are code that is not among the
  sources, the simulator is the AI2-THOR library, and the last is a function of the
  controller itself that the properties below do not need:
  \<^item> \<open>ACTION_LIST\<close>: the values of the enumeration \<^verbatim>\<open>MCS_Action\<close>, and the values of
    its members \<open>CLOSE_OBJECT\<close>, \<open>DROP_OBJECT\<close> and \<open>OPEN_OBJECT\<close>;
  \<^item> \<open>RETURN_STATUS_NAMES\<close>: the member names of the enumeration \<^verbatim>\<open>MCS_Return_Status\<close>;
  \<^item> \<open>input_to_action_and_params\<close>: the helper of \<^verbatim>\<open>MCS_Util\<close> that splits the
    single-string form of an action; it may raise;
  \<^item> \<open>generate_noise\<close>: the three samples drawn while the step counter has a given value;
  \<^item> \<open>simulator\<close>: the answer of the AI2-THOR controller to the latest call, given all
    calls made so far (the latest is last);
  \<^item> \<open>retrieve_object_list\<close>: the reconstruction of the object list from an event
    (lines 309 to 333, with the classes \<^verbatim>\<open>MCS_Object\<close> and \<^verbatim>\<open>MCS_Util\<close> that are not
    among the sources); it is left open here, as any function of the event that may raise.
\<close>

record environment =
  ACTION_LIST :: "string list"
  CLOSE_OBJECT :: string
  DROP_OBJECT :: string
  OPEN_OBJECT :: string
  RETURN_STATUS_NAMES :: "string list"
  input_to_action_and_params :: "string \<Rightarrow> py_error + string \<times> kwargs"
  generate_noise :: "nat \<Rightarrow> real \<times> real \<times> real"
  simulator :: "step_data list \<Rightarrow> scene_event"
  retrieve_object_list :: "scene_event \<Rightarrow> py_error + pyval"

record world =
  stdout :: "message list"
  sim_calls :: "step_data list"

definition print :: "message \<Rightarrow> world \<Rightarrow> world" where
  "print m w = w\<lparr>stdout := stdout w @ [m]\<rparr>"

section \<open>State reconstruction\<close>

text \<open>
  \<^verbatim>\<open>MCS_Return_Status[v].name\<close>: the lookup of a member by name. A name that is not a
  member raises \<open>KeyError\<close>; so does any other hashable key, and a list or a dictionary
  cannot be a key at all.
\<close>

fun return_status_lookup :: "string list \<Rightarrow> pyval \<Rightarrow> py_error + string" where
  "return_status_lookup names (PStr s) = (if s \<in> set names then Inr s else Inl KeyError)"
| "return_status_lookup names (PList xs) = Inl TypeError"
| "return_status_lookup names (PDict d) = Inl TypeError"
| "return_status_lookup names v = Inl KeyError"

text \<open>
  The message of line 347, \<^verbatim>\<open>"Return status " + v + " is not currently supported."\<close>:
  only a string can be appended to a string.
\<close>

fun unsupported_status_message :: "pyval \<Rightarrow> py_error + message" where
  "unsupported_status_message (PStr s) = Inr (Unsupported_status s)"
| "unsupported_status_message v = Inl TypeError"

text \<open>
  \<^verbatim>\<open>retrieve_return_status\<close>, lines 339 to 349. \<open>attempt\<close> is the \<^verbatim>\<open>try\<close> block: the new
  value of \<^verbatim>\<open>return_status\<close>, or what was raised. The handler runs for a \<open>KeyError\<close>
  only, and it reads the metadata again to build its message, which may raise in turn.
  The \<^verbatim>\<open>finally\<close> clause returns \<^verbatim>\<open>return_status\<close>: a \<^verbatim>\<open>return\<close> there discards an
  exception that is still pending.
\<close>

definition retrieve_return_status ::
  "string list \<Rightarrow> scene_event \<Rightarrow> world \<Rightarrow> (py_error + string) \<times> world" where
  "retrieve_return_status names scene_event w =
     (let return_status = ''UNDEFINED'';
          attempt =
            raise_bind (py_getitem (event_metadata scene_event) ''lastActionStatus'')
              (\<lambda>v. if truthy v then return_status_lookup names v else Inr return_status);
          (pending, return_status, w) =
            (case attempt of
               Inr s \<Rightarrow> (None, s, w)
             | Inl KeyError \<Rightarrow>
                 (case raise_bind (py_getitem (event_metadata scene_event) ''lastActionStatus'')
                         unsupported_status_message of
                    Inr m \<Rightarrow> (None, return_status, print m w)
                  | Inl e \<Rightarrow> (Some e, return_status, w))
             | Inl e \<Rightarrow> (Some e, return_status, w))
      in (Inr return_status, w))"

text \<open>\<^verbatim>\<open>scene_event.metadata['agent']['cameraHorizon']\<close>\<close>

definition retrieve_head_tilt :: "scene_event \<Rightarrow> py_error + pyval" where
  "retrieve_head_tilt scene_event =
     raise_bind (py_getitem (event_metadata scene_event) ''agent'')
       (\<lambda>agent. py_getitem agent ''cameraHorizon'')"

text \<open>\<^verbatim>\<open>MCS_Pose.STAND.name\<close>\<close>

definition retrieve_pose :: "scene_event \<Rightarrow> string" where
  "retrieve_pose scene_event = ''STAND''"

section \<open>The controller\<close>

text \<open>
  The private attributes of the controller (\<^verbatim>\<open>self.__step_number\<close> and the others). The
  step counter is a natural number: it is set to 0 and only ever incremented.
\<close>

record controller =
  self_debug_to_file :: bool
  self_debug_to_terminal :: bool
  self_enable_noise :: bool
  self_current_scene :: pyval
  self_head_tilt :: pyval
  self_output_folder :: "string option"
  self_step_number :: nat
  self_goal :: "MCS_Goal option"

text \<open>The argument \<^verbatim>\<open>debug\<close> of the constructor, as \<^verbatim>\<open>on_init\<close> tells its values apart.\<close>

datatype debug_mode = Debug_off | Debug_on | Debug_file | Debug_terminal

definition on_init :: "debug_mode \<Rightarrow> bool \<Rightarrow> controller" where
  "on_init debug enable_noise =
     \<lparr> self_debug_to_file = (debug = Debug_on \<or> debug = Debug_file),
       self_debug_to_terminal = (debug = Debug_on \<or> debug = Debug_terminal),
       self_enable_noise = enable_noise,
       self_current_scene = PNone,
       self_head_tilt = PNum 0,
       self_output_folder = None,
       self_step_number = 0,
       self_goal = None \<rparr>"

text \<open>
  Modelled from the spec: the class \<^verbatim>\<open>MCS_Step_Output\<close> (module \<^verbatim>\<open>mcs_step_output\<close> is
  not among the sources). The record holds the arguments that \<^verbatim>\<open>wrap_output\<close> passes to
  the constructor, without the three image lists; \<open>output_action_list\<close> is its
  \<^verbatim>\<open>action_list\<close>.
\<close>

record MCS_Step_Output =
  output_action_list :: pyval
  goal :: "MCS_Goal option"
  head_tilt :: pyval
  object_list :: pyval
  pose :: string
  return_status :: string
  step_number :: nat

text \<open>
  \<^verbatim>\<open>wrap_step\<close>, lines 404 to 422. The JSON files written in file debug mode are not
  modelled, here and below.
\<close>

definition wrap_step :: "string \<Rightarrow> pyval option \<Rightarrow> step_params option \<Rightarrow> step_data" where
  "wrap_step a scene_config p =
     \<lparr> continuous = True, gridSize = GRID_SIZE, logs = True, renderDepthImage = True,
       renderObjectImage = True, visibilityDistance = MAX_REACH_DISTANCE,
       action = a, sceneConfig = scene_config, params = p \<rparr>"

text \<open>
  \<^verbatim>\<open>wrap_output\<close>, lines 368 to 402. The constructor's arguments are evaluated in the
  order written: the action list, the head tilt, the object list, then the return status,
  which may print. An error leaves the controller as it was.
\<close>

definition wrap_output ::
  "environment \<Rightarrow> scene_event \<Rightarrow> controller \<times> world \<Rightarrow>
     (py_error + MCS_Step_Output) \<times> controller \<times> world" where
  "wrap_output env scene_event cw =
     (let (c, w) = cw in
      case retrieve_action_list (ACTION_LIST env) (self_goal c) (self_step_number c) of
        Inl e \<Rightarrow> (Inl e, c, w)
      | Inr actions \<Rightarrow>
     (case retrieve_head_tilt scene_event of
        Inl e \<Rightarrow> (Inl e, c, w)
      | Inr tilt \<Rightarrow>
     (case retrieve_object_list env scene_event of
        Inl e \<Rightarrow> (Inl e, c, w)
      | Inr objects \<Rightarrow>
     (case retrieve_return_status (RETURN_STATUS_NAMES env) scene_event w of
        (Inl e, w) \<Rightarrow> (Inl e, c, w)
      | (Inr status, w) \<Rightarrow>
          let step_output =
                \<lparr> output_action_list = actions, goal = self_goal c, head_tilt = tilt,
                  object_list = objects, pose = retrieve_pose scene_event,
                  return_status = status, step_number = self_step_number c \<rparr>;
              c = c\<lparr>self_head_tilt := head_tilt step_output\<rparr>;
              w = (if self_debug_to_terminal c
                   then print (Debug_objects (object_list step_output))
                          (print (Debug_return_status (return_status step_output)) w)
                   else w)
          in (Inr step_output, c, w)))))"

text \<open>\<^verbatim>\<open>mcs_action_to_ai2thor_action\<close>, lines 267 to 284.\<close>

definition mcs_action_to_ai2thor_action :: "environment \<Rightarrow> string \<Rightarrow> string" where
  "mcs_action_to_ai2thor_action env a =
     (if a = CLOSE_OBJECT env then ''MCSCloseObject''
      else if a = DROP_OBJECT env then ''DropHandObject''
      else if a = OPEN_OBJECT env then ''MCSOpenObject''
      else a)"

text \<open>
  The test of line 241,
  \<^verbatim>\<open>self.__goal.last_step is not None and self.__goal.last_step < self.__step_number\<close>.
  Only a number can be compared with the counter.
\<close>

fun py_less :: "pyval \<Rightarrow> real \<Rightarrow> py_error + bool" where
  "py_less (PNum x) y = Inr (x < y)"
| "py_less v y = Inl TypeError"

definition past_last_step :: "MCS_Goal \<Rightarrow> nat \<Rightarrow> py_error + bool" where
  "past_last_step g n =
     (if last_step g \<noteq> PNone then py_less (last_step g) (real n) else Inr False)"

text \<open>Lines 246 and 247: the single-string form is split by the helper.\<close>

definition split_action ::
  "environment \<Rightarrow> string \<Rightarrow> kwargs \<Rightarrow> py_error + string \<times> kwargs" where
  "split_action env a kw =
     (if CHR '','' \<in> set a then input_to_action_and_params env a else Inr (a, kw))"

text \<open>
  \<^verbatim>\<open>step\<close>, lines 238 to 265. The result is what the call returns or raises, with the
  controller and the world as the call leaves them. The base class's \<^verbatim>\<open>step\<close> is not
  among the sources; it cannot reach the private attributes and is taken to do nothing.
  Before \<^verbatim>\<open>start_scene\<close> the goal is \<^verbatim>\<open>None\<close> and reading its \<^verbatim>\<open>last_step\<close> raises.
\<close>

definition step ::
  "environment \<Rightarrow> string \<Rightarrow> kwargs \<Rightarrow> controller \<times> world \<Rightarrow>
     (py_error + MCS_Step_Output option) \<times> controller \<times> world" where
  "step env a kw cw =
     (let (c, w) = cw in
      case self_goal c of
        None \<Rightarrow> (Inl AttributeError, c, w)
      | Some g \<Rightarrow>
     (case past_last_step g (self_step_number c) of
        Inl e \<Rightarrow> (Inl e, c, w)
      | Inr True \<Rightarrow> (Inr None, c, print Past_last_step_warning w)
      | Inr False \<Rightarrow>
     (case split_action env a kw of
        Inl e \<Rightarrow> (Inl e, c, w)
      | Inr (a, kw) \<Rightarrow>
          let (a, w) = (if a \<notin> set (ACTION_LIST env)
                        then (''Pass'', print (Invalid_action_warning a) w)
                        else (a, w));
              c = c\<lparr>self_step_number := self_step_number c + 1\<rparr>;
              w = (if self_debug_to_terminal c
                   then print (Debug_action a) (print (Debug_step (self_step_number c)) w)
                   else w);
              p = validate_and_convert_params (self_enable_noise c)
                    (generate_noise env (self_step_number c)) a kw;
              a = mcs_action_to_ai2thor_action env a;
              w = w\<lparr>sim_calls := sim_calls w @ [wrap_step a None (Some p)]\<rparr>;
              (r, c, w) = wrap_output env (simulator env (sim_calls w)) (c, w)
          in (map_sum id Some r, c, w))))"


text \<open>
  \<^verbatim>\<open>start_scene\<close>, lines 117 to 131. In file debug mode the scene's name is read and the
  output folder is set; creating and emptying the folder is not modelled.
\<close>

definition scene_output_folder :: "controller \<Rightarrow> pyval \<Rightarrow> py_error + controller" where
  "scene_output_folder c config_data =
     (if self_debug_to_file c then
        raise_bind (py_getitem config_data ''name'') (\<lambda>name.
          if name \<noteq> PNone then
            (case name of
               PStr s \<Rightarrow> Inr (c\<lparr>self_output_folder := Some (''./'' @ s @ ''/'')\<rparr>)
             | _ \<Rightarrow> Inl TypeError)
          else Inr c)
      else Inr c)"

definition start_scene ::
  "environment \<Rightarrow> pyval \<Rightarrow> controller \<times> world \<Rightarrow>
     (py_error + MCS_Step_Output) \<times> controller \<times> world" where
  "start_scene env config_data cw =
     (let (c, w) = cw;
          c = c\<lparr>self_current_scene := config_data, self_step_number := 0\<rparr>
      in
      case retrieve_goal (self_current_scene c) of
        Inl e \<Rightarrow> (Inl e, c, w)
      | Inr g \<Rightarrow>
     (case scene_output_folder (c\<lparr>self_goal := Some g\<rparr>) config_data of
        Inl e \<Rightarrow> (Inl e, c\<lparr>self_goal := Some g\<rparr>, w)
      | Inr c \<Rightarrow>
          let w = w\<lparr>sim_calls := sim_calls w @ [wrap_step ''Initialize'' (Some config_data) None]\<rparr>
          in wrap_output env (simulator env (sim_calls w)) (c, w)))"

section \<open>A concrete scene\<close>

text \<open>
  An environment, a scene configuration and a run, used to evaluate the definitions on
  concrete inputs. The vocabulary and the status names stand for the two enumerations;
  the simulator always answers with the same event; the splitter keeps the action name
  and drops the parameters.
\<close>

definition example_event :: scene_event where
  "example_event =
     \<lparr> event_metadata =
         PDict [(''lastActionStatus'', PStr ''SUCCESSFUL''),
                (''agent'', PDict [(''cameraHorizon'', PNum 0)]),
                (''objects'', PList [])],
       object_id_to_color = PDict [] \<rparr>"

definition example_env :: environment where
  "example_env =
     \<lparr> ACTION_LIST = [''CloseObject'', ''DropObject'', ''MoveAhead'', ''OpenObject'', ''Pass'',
                      ''PushObject'', ''RotateLook''],
       CLOSE_OBJECT = ''CloseObject'',
       DROP_OBJECT = ''DropObject'',
       OPEN_OBJECT = ''OpenObject'',
       RETURN_STATUS_NAMES = [''SUCCESSFUL'', ''FAILED'', ''UNDEFINED''],
       input_to_action_and_params = (\<lambda>s. Inr (takeWhile (\<lambda>c. c \<noteq> CHR '','') s, [])),
       generate_noise = (\<lambda>n. (0, 0, 0)),
       simulator = (\<lambda>calls. example_event),
       retrieve_object_list = (\<lambda>e. Inr (PList [])) \<rparr>"

text \<open>The configuration \<^verbatim>\<open>{"goal": {"last_step": 2}}\<close>.\<close>

definition example_config :: pyval where
  "example_config = PDict [(''goal'', PDict [(''last_step'', PNum 2)])]"

definition empty_world :: world where
  "empty_world = \<lparr> stdout = [], sim_calls = [] \<rparr>"

text \<open>
  A fresh controller starts the scene; then \<^verbatim>\<open>step("MoveAhead")\<close> is called four times.
  Each constant is the outcome of one call: the result, the controller and the world.
\<close>

definition scenario_start :: "(py_error + MCS_Step_Output) \<times> controller \<times> world" where
  "scenario_start =
     start_scene example_env example_config (on_init Debug_off False, empty_world)"

definition scenario_step1 :: "(py_error + MCS_Step_Output option) \<times> controller \<times> world" where
  "scenario_step1 = step example_env ''MoveAhead'' [] (snd scenario_start)"

definition scenario_step2 :: "(py_error + MCS_Step_Output option) \<times> controller \<times> world" where
  "scenario_step2 = step example_env ''MoveAhead'' [] (snd scenario_step1)"

definition scenario_step3 :: "(py_error + MCS_Step_Output option) \<times> controller \<times> world" where
  "scenario_step3 = step example_env ''MoveAhead'' [] (snd scenario_step2)"

definition scenario_step4 :: "(py_error + MCS_Step_Output option) \<times> controller \<times> world" where
  "scenario_step4 = step example_env ''MoveAhead'' [] (snd scenario_step3)"

text \<open>The goal that \<^const>\<open>retrieve_goal\<close> builds from \<^const>\<open>example_config\<close>.\<close>

definition example_goal :: MCS_Goal where
  "example_goal =
     \<lparr> action_list = PNone, info_list = PList [], last_step = PNum 2,
       task_list = PList [], type_list = PList [], metadata = PDict [] \<rparr>"

text \<open>A goal with a whitelist for step 0 and an empty entry for step 1.\<close>

definition whitelist_goal :: MCS_Goal where
  "whitelist_goal =
     \<lparr> action_list = PList [PList [PStr ''MoveAhead'', PStr ''Pass''], PList []],
       info_list = PList [], last_step = PNone,
       task_list = PList [], type_list = PList [], metadata = PDict [] \<rparr>"


text \<open>An event whose metadata has no \<^verbatim>\<open>lastActionStatus\<close>, and one with a given status.\<close>

definition event_without_status :: scene_event where
  "event_without_status =
     \<lparr> event_metadata = PDict [(''agent'', PDict [(''cameraHorizon'', PNum 0)])],
       object_id_to_color = PDict [] \<rparr>"

definition event_with_status :: "string \<Rightarrow> scene_event" where
  "event_with_status s =
     \<lparr> event_metadata = PDict [(''lastActionStatus'', PStr s)],
       object_id_to_color = PDict [] \<rparr>"

text \<open>The three noise samples of a run without noise.\<close>

definition no_noise :: "real \<times> real \<times> real" where
  "no_noise = (0, 0, 0)"


section \<open>Properties\<close>


subsection \<open>Facts about one call of \<^verbatim>\<open>step\<close>\<close>



lemma step_refused:
  "self_goal c = Some g \<Longrightarrow> past_last_step g (self_step_number c) = Inr True \<Longrightarrow>
     step env a kw (c, w) = (Inr None, c, print Past_last_step_warning w)"
  by (simp add: step_def)


lemma past_last_step_number:
  "last_step g = PNum l \<Longrightarrow> past_last_step g n = Inr (l < real n)"
  by (simp add: past_last_step_def)






subsection \<open>Facts about the concrete scene\<close>

lemmas run_defs = start_scene_def on_init_def empty_world_def example_config_def
  retrieve_goal_def item_if_present_def raise_bind_def scene_output_folder_def wrap_step_def
  wrap_output_def retrieve_action_list_def example_env_def retrieve_head_tilt_def
  example_event_def retrieve_return_status_def retrieve_pose_def print_def Let_def step_def
  past_last_step_def split_action_def mcs_action_to_ai2thor_action_def example_goal_def

lemma scenario_start_state:
  "snd scenario_start =
     (\<lparr> self_debug_to_file = False, self_debug_to_terminal = False, self_enable_noise = False,
        self_current_scene = example_config, self_head_tilt = PNum 0,
        self_output_folder = None, self_step_number = 0, self_goal = Some example_goal \<rparr>,
      \<lparr> stdout = [], sim_calls = [wrap_step ''Initialize'' (Some example_config) None] \<rparr>)"
  by (simp add: scenario_start_def run_defs)

lemma scenario_step2_state:
  "self_goal (fst (snd scenario_step2)) = Some example_goal \<and>
   self_step_number (fst (snd scenario_step2)) = 2 \<and>
   map action (sim_calls (snd (snd scenario_step2))) =
     [''Initialize'', ''MoveAhead'', ''MoveAhead'']"
  by (simp add: scenario_step2_def scenario_step1_def scenario_start_state run_defs)

lemma scenario_step3_state:
  "self_goal (fst (snd scenario_step3)) = Some example_goal \<and>
   self_step_number (fst (snd scenario_step3)) = 3 \<and>
   map action (sim_calls (snd (snd scenario_step3))) =
     [''Initialize'', ''MoveAhead'', ''MoveAhead'', ''MoveAhead'']"
  by (simp add: scenario_step3_def scenario_step2_def scenario_step1_def scenario_start_state
      run_defs)

lemma scenario_results:
  "map_sum id (map_option step_number) (fst scenario_step1) = Inr (Some 1) \<and>
   map_sum id (map_option step_number) (fst scenario_step2) = Inr (Some 2) \<and>
   map_sum id (map_option step_number) (fst scenario_step3) = Inr (Some 3)"
  by (simp add: scenario_step3_def scenario_step2_def scenario_step1_def scenario_start_state
      run_defs)

subsection \<open>The last-step guard\<close>

text \<open>
  Claim C1 says that a call is refused once the step counter has reached the goal's
  \<^verbatim>\<open>last_step\<close>: with \<^verbatim>\<open>last_step = 2\<close>, the third \<^verbatim>\<open>step("MoveAhead")\<close> after two
  accepted calls returns nothing and does not call the simulator. The guard of line 241
  compares with \<^verbatim>\<open><\<close> the counter as it is before the increment of line 253, so the
  third call is accepted: it calls the simulator and returns the output of step 3, one
  step after the last.
\<close>

theorem third_step_is_accepted:
  "self_goal (fst (snd scenario_start)) = Some example_goal \<and>
   last_step example_goal = PNum 2 \<and>
   map_sum id (map_option step_number) (fst scenario_step1) = Inr (Some 1) \<and>
   map_sum id (map_option step_number) (fst scenario_step2) = Inr (Some 2) \<and>
   self_step_number (fst (snd scenario_step2)) = 2 \<and>
   map_sum id (map_option step_number) (fst scenario_step3) = Inr (Some 3) \<and>
   map action (sim_calls (snd (snd scenario_step2))) =
     [''Initialize'', ''MoveAhead'', ''MoveAhead''] \<and>
   map action (sim_calls (snd (snd scenario_step3))) =
     [''Initialize'', ''MoveAhead'', ''MoveAhead'', ''MoveAhead'']"
  using scenario_step2_state scenario_step3_state scenario_results
  by (simp add: scenario_start_state example_goal_def)

text \<open>
  What the guard does: once the step counter is greater than \<^verbatim>\<open>last_step\<close>, a call
  returns \<^verbatim>\<open>None\<close>, prints the warning, makes no simulator call and leaves the controller
  as it was, so every later call is refused as well.
\<close>

lemma step_past_last_step_refused:
  assumes "self_goal c = Some g" and "last_step g = PNum l" and "l < real (self_step_number c)"
  shows "step env a kw (c, w) = (Inr None, c, print Past_last_step_warning w) \<and>
         sim_calls (snd (snd (step env a kw (c, w)))) = sim_calls w"
proof -
  have "past_last_step g (self_step_number c) = Inr True"
    using assms by (simp add: past_last_step_number)
  then have "step env a kw (c, w) = (Inr None, c, print Past_last_step_warning w)"
    using assms(1) by (rule step_refused [rotated])
  then show ?thesis by (simp add: print_def)
qed

text \<open>
  With \<^verbatim>\<open>last_step = 2\<close>, after three accepted calls the counter is 3 and the fourth call
  is refused.
\<close>

lemma step_past_last_step_refused_example:
  "self_goal (fst (snd scenario_step3)) = Some example_goal \<and>
   last_step example_goal = PNum 2 \<and>
   (2::real) < real (self_step_number (fst (snd scenario_step3))) \<and>
   fst scenario_step4 = Inr None \<and>
   fst (snd scenario_step4) = fst (snd scenario_step3) \<and>
   sim_calls (snd (snd scenario_step4)) = sim_calls (snd (snd scenario_step3))"
proof -
  have g: "self_goal (fst (snd scenario_step3)) = Some example_goal"
    and n: "self_step_number (fst (snd scenario_step3)) = 3"
    using scenario_step3_state by simp_all
  have l: "last_step example_goal = PNum 2" by (simp add: example_goal_def)
  have "(2::real) < real (self_step_number (fst (snd scenario_step3)))" using n by simp
  from step_past_last_step_refused [OF g l this, of example_env "''MoveAhead''" "[]"
      "snd (snd scenario_step3)"]
  show ?thesis using g n l by (simp add: scenario_step4_def print_def)
qed

subsection \<open>Default of \<^verbatim>\<open>amount\<close>\<close>

text \<open>
  Claim C2 says that an open or close action called without \<^verbatim>\<open>amount\<close> gets the amount 1.
  The code reads a missing \<^verbatim>\<open>amount\<close> as \<^verbatim>\<open>DEFAULT_AMOUNT\<close> (line 143), which is a number,
  so the default of 1 for open and close (lines 160 to 165) is never taken: the amount and
  the move magnitude are 0.5 for \<^verbatim>\<open>OpenObject\<close> and \<^verbatim>\<open>CloseObject\<close>, as for
  \<^verbatim>\<open>MoveAhead\<close>, where the move magnitude is 0.25. The default of 1 applies only to an
  \<^verbatim>\<open>amount\<close> that is supplied and is not a number.
\<close>

theorem open_close_without_amount:
  "normalized_amount ''OpenObject'' [] = 0.5 \<and>
   moveMagnitude (validate_and_convert_params False no_noise ''OpenObject'' []) = 0.5 \<and>
   normalized_amount ''CloseObject'' [] = 0.5 \<and>
   moveMagnitude (validate_and_convert_params False no_noise ''CloseObject'' []) = 0.5 \<and>
   normalized_amount ''MoveAhead'' [] = 0.5 \<and>
   moveMagnitude (validate_and_convert_params False no_noise ''MoveAhead'' []) = 0.25 \<and>
   normalized_amount ''OpenObject'' [(''amount'', PStr ''wide'')] = 1"
  by (simp add: validate_and_convert_params_def Let_def normalized_amount_def kwargs_get_def
      is_in_range_def)

subsection \<open>Return status\<close>

text \<open>
  Claim C3, as the code has it. \<^verbatim>\<open>retrieve_return_status\<close> never raises. For a status
  string that is not a member name, and for metadata without the key
  \<^verbatim>\<open>lastActionStatus\<close>, it returns \<^verbatim>\<open>UNDEFINED\<close>. The message is printed when the
  status is a string that is not empty and not a member name.
\<close>

theorem return_status_never_raises:
  "(\<exists>s. fst (retrieve_return_status names ev w) = Inr s) \<and>
   (event_metadata ev = PDict d \<and> map_of d ''lastActionStatus'' = Some (PStr s) \<and>
      s \<notin> set names \<longrightarrow>
        fst (retrieve_return_status names ev w) = Inr ''UNDEFINED'') \<and>
   (event_metadata ev = PDict d \<and> map_of d ''lastActionStatus'' = Some (PStr s) \<and>
      s \<notin> set names \<and> s \<noteq> [] \<longrightarrow>
        snd (retrieve_return_status names ev w) = print (Unsupported_status s) w) \<and>
   (event_metadata ev = PDict d \<and> map_of d ''lastActionStatus'' = None \<longrightarrow>
        fst (retrieve_return_status names ev w) = Inr ''UNDEFINED'')"
  by (auto simp add: retrieve_return_status_def raise_bind_def Let_def
      split: sum.splits py_error.splits prod.splits)

text \<open>
  The status \<^verbatim>\<open>"SUCCESS"\<close> is not a member name: the result is \<^verbatim>\<open>UNDEFINED\<close> and the
  message is printed. Without the key the result is \<^verbatim>\<open>UNDEFINED\<close> too.
\<close>

theorem return_status_never_raises_witness:
  "event_metadata (event_with_status ''SUCCESS'') =
     PDict [(''lastActionStatus'', PStr ''SUCCESS'')] \<and>
   map_of [(''lastActionStatus'', PStr ''SUCCESS'')] ''lastActionStatus'' =
     Some (PStr ''SUCCESS'') \<and>
   ''SUCCESS'' \<notin> set (RETURN_STATUS_NAMES example_env) \<and>
   retrieve_return_status (RETURN_STATUS_NAMES example_env) (event_with_status ''SUCCESS'')
       empty_world =
     (Inr ''UNDEFINED'', print (Unsupported_status ''SUCCESS'') empty_world) \<and>
   event_metadata event_without_status =
     PDict [(''agent'', PDict [(''cameraHorizon'', PNum 0)])] \<and>
   map_of [(''agent'', PDict [(''cameraHorizon'', PNum 0)])] ''lastActionStatus'' = None \<and>
   fst (retrieve_return_status (RETURN_STATUS_NAMES example_env) event_without_status
          empty_world) = Inr ''UNDEFINED''"
proof -
  have m: "event_metadata (event_with_status ''SUCCESS'') =
      PDict [(''lastActionStatus'', PStr ''SUCCESS'')]"
    by (simp add: event_with_status_def)
  have k: "map_of [(''lastActionStatus'', PStr ''SUCCESS'')] ''lastActionStatus'' =
      Some (PStr ''SUCCESS'')"
    by simp
  have u: "''SUCCESS'' \<notin> set (RETURN_STATUS_NAMES example_env)"
    by (simp add: example_env_def)
  have m': "event_metadata event_without_status =
      PDict [(''agent'', PDict [(''cameraHorizon'', PNum 0)])]"
    by (simp add: event_without_status_def)
  have k': "map_of [(''agent'', PDict [(''cameraHorizon'', PNum 0)])] ''lastActionStatus'' = None"
    by simp
  from return_status_never_raises [of "RETURN_STATUS_NAMES example_env"
      "event_with_status ''SUCCESS''" empty_world "[(''lastActionStatus'', PStr ''SUCCESS'')]"
      "''SUCCESS''"] m k u
  have a: "retrieve_return_status (RETURN_STATUS_NAMES example_env)
      (event_with_status ''SUCCESS'') empty_world =
     (Inr ''UNDEFINED'', print (Unsupported_status ''SUCCESS'') empty_world)"
    by (simp add: prod_eq_iff)
  from return_status_never_raises [of "RETURN_STATUS_NAMES example_env"
      event_without_status empty_world "[(''agent'', PDict [(''cameraHorizon'', PNum 0)])]"] m' k'
  have b: "fst (retrieve_return_status (RETURN_STATUS_NAMES example_env) event_without_status
          empty_world) = Inr ''UNDEFINED''"
    by simp
  show ?thesis using m k u m' k' a b by simp
qed

text \<open>
  Claim C3 as the specification states it does not hold. An empty status string is not a
  member name, but the test of line 344 skips the lookup for it, so nothing is printed.
  When the key is missing, the handler of line 347 reads the key again to build its
  message, which raises before anything is printed, and the \<^verbatim>\<open>finally\<close> clause returns.
\<close>

theorem missing_status_prints_nothing:
  "[] \<notin> set (RETURN_STATUS_NAMES example_env) \<and>
   retrieve_return_status (RETURN_STATUS_NAMES example_env) (event_with_status []) empty_world =
     (Inr ''UNDEFINED'', empty_world) \<and>
   py_getitem (event_metadata event_without_status) ''lastActionStatus'' = Inl KeyError \<and>
   retrieve_return_status (RETURN_STATUS_NAMES example_env) event_without_status empty_world =
     (Inr ''UNDEFINED'', empty_world) \<and>
   stdout empty_world = []"
  by (simp add: retrieve_return_status_def event_without_status_def event_with_status_def
      raise_bind_def empty_world_def example_env_def)

subsection \<open>Goal resolution\<close>

text \<open>
  Claim C4 says that \<^verbatim>\<open>retrieve_goal\<close> never fails. The code reads \<^verbatim>\<open>info_list\<close> and
  \<^verbatim>\<open>task_list\<close> whenever the key \<^verbatim>\<open>type_list\<close> is present (lines 299 and 301): a goal
  with \<^verbatim>\<open>type_list\<close> and no \<^verbatim>\<open>info_list\<close> raises \<open>KeyError\<close>. A goal with a
  \<^verbatim>\<open>task_list\<close> and no \<^verbatim>\<open>type_list\<close> loses its \<^verbatim>\<open>task_list\<close>, and a configuration
  without a goal gets the defaults.
\<close>

theorem retrieve_goal_type_list_only:
  "retrieve_goal (PDict [(''goal'', PDict [(''type_list'', PList [PStr ''interaction''])])]) =
     Inl KeyError \<and>
   retrieve_goal (PDict [(''goal'', PDict [(''task_list'', PList [PStr ''retrieval''])])]) =
     Inr \<lparr> action_list = PNone, info_list = PList [], last_step = PNone,
           task_list = PList [], type_list = PList [], metadata = PDict [] \<rparr> \<and>
   retrieve_goal (PDict []) =
     Inr \<lparr> action_list = PNone, info_list = PList [], last_step = PNone,
           task_list = PList [], type_list = PList [], metadata = PDict [] \<rparr>"
  by (simp add: retrieve_goal_def item_if_present_def raise_bind_def)

subsection \<open>Move magnitude\<close>

text \<open>
  Claim C5. With noise disabled, the move magnitude of the payload is the normalized force
  times 25 for \<^verbatim>\<open>ThrowObject\<close>, \<^verbatim>\<open>PushObject\<close> and \<^verbatim>\<open>PullObject\<close>, the normalized amount for
  \<^verbatim>\<open>OpenObject\<close> and \<^verbatim>\<open>CloseObject\<close>, the normalized amount times 0.5 for the four move
  actions, and 0.5 for every other action.
\<close>

theorem move_magnitude_by_action_class:
  "moveMagnitude (validate_and_convert_params False noise act kw) =
     (if act \<in> set FORCE_ACTIONS then normalized_force kw * 25
      else if act \<in> set OBJECT_MOVE_ACTIONS then normalized_amount act kw
      else if act \<in> set MOVE_ACTIONS then normalized_amount act kw * 0.5
      else 0.5)"
  by (auto simp add: validate_and_convert_params_def Let_def)

text \<open>One action of each class, with force 0.4 and amount 0.8.\<close>

theorem move_magnitude_by_action_class_witness:
  "moveMagnitude (validate_and_convert_params False no_noise ''PushObject''
                    [(''force'', PNum 0.4), (''amount'', PNum 0.8)]) = 10 \<and>
   moveMagnitude (validate_and_convert_params False no_noise ''OpenObject''
                    [(''force'', PNum 0.4), (''amount'', PNum 0.8)]) = 0.8 \<and>
   moveMagnitude (validate_and_convert_params False no_noise ''MoveBack''
                    [(''force'', PNum 0.4), (''amount'', PNum 0.8)]) = 0.4 \<and>
   moveMagnitude (validate_and_convert_params False no_noise ''RotateLook''
                    [(''force'', PNum 0.4), (''amount'', PNum 0.8)]) = 0.5"
proof -
  show ?thesis
    using move_magnitude_by_action_class [of no_noise "''PushObject''"
        "[(''force'', PNum 0.4), (''amount'', PNum 0.8)]"]
      move_magnitude_by_action_class [of no_noise "''OpenObject''"
        "[(''force'', PNum 0.4), (''amount'', PNum 0.8)]"]
      move_magnitude_by_action_class [of no_noise "''MoveBack''"
        "[(''force'', PNum 0.4), (''amount'', PNum 0.8)]"]
      move_magnitude_by_action_class [of no_noise "''RotateLook''"
        "[(''force'', PNum 0.4), (''amount'', PNum 0.8)]"]
    by (simp add: normalized_force_def normalized_amount_def kwargs_get_def is_in_range_def)
qed

subsection \<open>Range checks\<close>

text \<open>
  Claim C6 says that a number outside a parameter's range is replaced by the parameter's
  documented default. For \<^verbatim>\<open>amount\<close> the documented default of an open or close action
  is 1 (the comment of line 161 and \<^verbatim>\<open>DEFAULT_OBJECT_MOVE_AMOUNT\<close>), and lines 160 to 165
  give it to an amount that is not a number. The range check of line 193 is passed
  \<^verbatim>\<open>DEFAULT_AMOUNT\<close> for every action: \<^verbatim>\<open>OpenObject\<close> or \<^verbatim>\<open>CloseObject\<close> with the amount
  2 gets the amount 0.5, and the move magnitude 0.5.
\<close>

theorem open_amount_out_of_range:
  "map_of [(''amount'', PNum 2)] AMOUNT_KEY = Some (PNum 2) \<and>
   MAX_AMOUNT < 2 \<and>
   normalized_amount ''OpenObject'' [(''amount'', PNum 2)] =
     is_in_range 2 MIN_AMOUNT MAX_AMOUNT DEFAULT_AMOUNT \<and>
   normalized_amount ''OpenObject'' [(''amount'', PNum 2)] = 0.5 \<and>
   moveMagnitude (validate_and_convert_params False no_noise ''OpenObject''
                    [(''amount'', PNum 2)]) = 0.5 \<and>
   normalized_amount ''CloseObject'' [(''amount'', PNum 2)] = 0.5 \<and>
   moveMagnitude (validate_and_convert_params False no_noise ''CloseObject''
                    [(''amount'', PNum 2)]) = 0.5 \<and>
   DEFAULT_OBJECT_MOVE_AMOUNT = 1 \<and>
   normalized_amount ''OpenObject'' [(''amount'', PStr ''wide'')] = DEFAULT_OBJECT_MOVE_AMOUNT"
  by (simp add: validate_and_convert_params_def Let_def normalized_amount_def kwargs_get_def
      is_in_range_def)

text \<open>
  What the range checks of lines 191 to 194 do: a number supplied for \<^verbatim>\<open>horizon\<close>
  outside \<open>[-180, 180]\<close>, for \<^verbatim>\<open>amount\<close> outside \<open>[0, 1]\<close> or for \<^verbatim>\<open>force\<close> outside
  \<open>[0, 1]\<close> is replaced by \<^verbatim>\<open>DEFAULT_HORIZON\<close> = 0, \<^verbatim>\<open>DEFAULT_AMOUNT\<close> = 0.5 or
  \<^verbatim>\<open>DEFAULT_FORCE\<close> = 0.5, for every action, and the result is neither bound of the range.
\<close>

lemma out_of_range_gives_default:
  "(map_of kw HORIZON_KEY = Some (PNum h) \<and> (h < MIN_HORIZON \<or> MAX_HORIZON < h) \<longrightarrow>
      normalized_horizon kw = DEFAULT_HORIZON \<and>
      horizon (validate_and_convert_params False noise act kw) = DEFAULT_HORIZON \<and>
      normalized_horizon kw \<notin> {MIN_HORIZON, MAX_HORIZON}) \<and>
   (map_of kw AMOUNT_KEY = Some (PNum a) \<and> (a < MIN_AMOUNT \<or> MAX_AMOUNT < a) \<longrightarrow>
      normalized_amount act kw = DEFAULT_AMOUNT \<and>
      normalized_amount act kw \<notin> {MIN_AMOUNT, MAX_AMOUNT}) \<and>
   (map_of kw FORCE_KEY = Some (PNum f) \<and> (f < MIN_FORCE \<or> MAX_FORCE < f) \<longrightarrow>
      normalized_force kw = DEFAULT_FORCE \<and>
      normalized_force kw \<notin> {MIN_FORCE, MAX_FORCE})"
  by (auto simp add: validate_and_convert_params_def Let_def normalized_amount_def
      normalized_horizon_def normalized_force_def kwargs_get_def is_in_range_def)

text \<open>A horizon of 200, an amount of 2 and a force of -1.\<close>

lemma out_of_range_gives_default_example:
  "map_of [(''horizon'', PNum 200), (''amount'', PNum 2), (''force'', PNum (- 1))] HORIZON_KEY =
     Some (PNum 200) \<and> MAX_HORIZON < 200 \<and>
   horizon (validate_and_convert_params False no_noise ''OpenObject''
              [(''horizon'', PNum 200), (''amount'', PNum 2), (''force'', PNum (- 1))]) = 0 \<and>
   map_of [(''horizon'', PNum 200), (''amount'', PNum 2), (''force'', PNum (- 1))] AMOUNT_KEY =
     Some (PNum 2) \<and> MAX_AMOUNT < 2 \<and>
   normalized_amount ''OpenObject''
     [(''horizon'', PNum 200), (''amount'', PNum 2), (''force'', PNum (- 1))] = 0.5 \<and>
   map_of [(''horizon'', PNum 200), (''amount'', PNum 2), (''force'', PNum (- 1))] FORCE_KEY =
     Some (PNum (- 1)) \<and> - 1 < MIN_FORCE \<and>
   normalized_force
     [(''horizon'', PNum 200), (''amount'', PNum 2), (''force'', PNum (- 1))] = 0.5"
  using out_of_range_gives_default [of
      "[(''horizon'', PNum 200), (''amount'', PNum 2), (''force'', PNum (- 1))]"
      200 no_noise "''OpenObject''" 2 "- 1"]
  by simp

subsection \<open>Unknown actions\<close>



subsection \<open>The step counter\<close>



subsection \<open>Action list\<close>

text \<open>
  Claim C9. \<^verbatim>\<open>retrieve_action_list\<close> returns the entry of the goal's action list at the
  step index when that entry exists and is a list that is not empty. It returns the full
  vocabulary when there is no goal, when the goal has no action list, when the index is
  out of bounds and when the entry is the empty list.
\<close>

theorem retrieve_action_list_cases:
  "retrieve_action_list vocabulary None n = Inr (PList (map PStr vocabulary)) \<and>
   (action_list g = PNone \<longrightarrow>
      retrieve_action_list vocabulary (Some g) n = Inr (PList (map PStr vocabulary))) \<and>
   (action_list g = PList xs \<and> n < length xs \<and> xs ! n = PList e \<and> e \<noteq> [] \<longrightarrow>
      retrieve_action_list vocabulary (Some g) n = Inr (PList e)) \<and>
   (action_list g = PList xs \<and> length xs \<le> n \<longrightarrow>
      retrieve_action_list vocabulary (Some g) n = Inr (PList (map PStr vocabulary))) \<and>
   (action_list g = PList xs \<and> n < length xs \<and> xs ! n = PList [] \<longrightarrow>
      retrieve_action_list vocabulary (Some g) n = Inr (PList (map PStr vocabulary)))"
  by (auto simp add: retrieve_action_list_def raise_bind_def)

text \<open>One instance of each of the five cases.\<close>

theorem retrieve_action_list_cases_witness:
  "retrieve_action_list [''MoveAhead'', ''Pass'', ''RotateLook''] None 0 =
     Inr (PList [PStr ''MoveAhead'', PStr ''Pass'', PStr ''RotateLook'']) \<and>
   action_list example_goal = PNone \<and>
   retrieve_action_list [''MoveAhead'', ''Pass'', ''RotateLook''] (Some example_goal) 0 =
     Inr (PList [PStr ''MoveAhead'', PStr ''Pass'', PStr ''RotateLook'']) \<and>
   action_list whitelist_goal = PList [PList [PStr ''MoveAhead'', PStr ''Pass''], PList []] \<and>
   retrieve_action_list [''MoveAhead'', ''Pass'', ''RotateLook''] (Some whitelist_goal) 0 =
     Inr (PList [PStr ''MoveAhead'', PStr ''Pass'']) \<and>
   retrieve_action_list [''MoveAhead'', ''Pass'', ''RotateLook''] (Some whitelist_goal) 2 =
     Inr (PList [PStr ''MoveAhead'', PStr ''Pass'', PStr ''RotateLook'']) \<and>
   retrieve_action_list [''MoveAhead'', ''Pass'', ''RotateLook''] (Some whitelist_goal) 1 =
     Inr (PList [PStr ''MoveAhead'', PStr ''Pass'', PStr ''RotateLook''])"
proof -
  have e: "action_list example_goal = PNone" by (simp add: example_goal_def)
  have l: "action_list whitelist_goal =
      PList [PList [PStr ''MoveAhead'', PStr ''Pass''], PList []]"
    by (simp add: whitelist_goal_def)
  show ?thesis
    using e l
      retrieve_action_list_cases [of "[''MoveAhead'', ''Pass'', ''RotateLook'']" 0 example_goal]
      retrieve_action_list_cases [of "[''MoveAhead'', ''Pass'', ''RotateLook'']" 0 whitelist_goal
        "[PList [PStr ''MoveAhead'', PStr ''Pass''], PList []]"
        "[PStr ''MoveAhead'', PStr ''Pass'']"]
      retrieve_action_list_cases [of "[''MoveAhead'', ''Pass'', ''RotateLook'']" 2 whitelist_goal
        "[PList [PStr ''MoveAhead'', PStr ''Pass''], PList []]"]
      retrieve_action_list_cases [of "[''MoveAhead'', ''Pass'', ''RotateLook'']" 1 whitelist_goal
        "[PList [PStr ''MoveAhead'', PStr ''Pass''], PList []]"]
    by simp
qed

subsection \<open>Rotation\<close>

text \<open>
  Claim C10. A number supplied for \<^verbatim>\<open>rotation\<close> reaches the payload unchanged, as the
  \<^verbatim>\<open>y\<close> component of the rotation vector, when noise is disabled: the function checks
  that it is a number and never compares it with \<^verbatim>\<open>MIN_ROTATION\<close> or \<^verbatim>\<open>MAX_ROTATION\<close>.
\<close>

theorem rotation_not_range_checked:
  "map_of kw ROTATION_KEY = Some (PNum r) \<Longrightarrow>
     rotation (validate_and_convert_params False noise act kw) = [(''y'', r)]"
  by (simp add: validate_and_convert_params_def Let_def normalized_rotation_def kwargs_get_def)

text \<open>A rotation of 1000 degrees, far above \<^verbatim>\<open>MAX_ROTATION\<close>.\<close>

theorem rotation_not_range_checked_witness:
  "map_of [(''rotation'', PNum 1000)] ROTATION_KEY = Some (PNum 1000) \<and>
   MAX_ROTATION < 1000 \<and>
   rotation (validate_and_convert_params False no_noise ''RotateLook''
               [(''rotation'', PNum 1000)]) = [(''y'', 1000)]"
  using rotation_not_range_checked [of "[(''rotation'', PNum 1000)]" 1000 no_noise
      "''RotateLook''"]
  by simp

end
